theory Spec2Isabelle
  imports Complex_Main
begin

section \<open>FoxDot pattern functions (lib/Patterns/Sequences.py)\<close>

text \<open>
  Python's unbounded integers are \<^typ>\<open>int\<close>. A Python float is a \<open>pyfloat\<close>: a finite
  value, carried as a rational, an infinity or NaN; an int and the float of the same
  value are identified, as Python compares them equal. In PSum the numbers are rationals:
  every number it computes from integer and dyadic inputs (halving, adding multiples of a
  power of two) is a dyadic rational, which the binary floats represent exactly at these
  magnitudes. A function that raises returns \<open>Inl\<close> of the error; a function with a
  \<^verbatim>\<open>while\<close> loop returns an \<open>option\<close>, where \<open>None\<close> is "does not return".
\<close>

subsection \<open>Values and errors\<close>

datatype error = InvalidArgument | InvalidRange | AlignmentError
  | IndexError | ZeroDivisionError | TypeError | OverflowError | ValueError

datatype pyfloat = Finite rat | PosInf | NegInf | NaN

text \<open>
  The values a pattern function receives: numbers, strings, Python lists and tuples, and
  the two container classes of the library (imported from \<^verbatim>\<open>.Main\<close> and \<^verbatim>\<open>.PGroups\<close>),
  each with its data.
\<close>

datatype val = Float pyfloat | Str string
  | PyList "val list" | Tuple "val list"
  | Pattern "val list" | PGroup "val list"

abbreviation Num :: "rat \<Rightarrow> val" where
  "Num q \<equiv> Float (Finite q)"

text \<open>Python's \<^verbatim>\<open>xs[j]\<close>: a negative index counts from the end, out of range raises.\<close>

definition py_index :: "int \<Rightarrow> nat \<Rightarrow> nat option" where
  "py_index j len =
     (if 0 \<le> j \<and> j < int len then Some (nat j)
      else if - int len \<le> j \<and> j < 0 then Some (nat (int len + j))
      else None)"

subsection \<open>P(...): the call syntax of the pattern creator\<close>

text \<open>
  \<^verbatim>\<open>
    def __call__(self, *args):
        return PGroup(args if len(args) > 1 else args[0])
  \<close>
  The class \<^verbatim>\<open>PGroup\<close> is not in this file: its constructor is the parameter \<open>mk\<close>. The
  argument of the constructor is evaluated first, and \<^verbatim>\<open>args[0]\<close> on the empty tuple raises
  IndexError.
\<close>

definition pattern_call :: "(val \<Rightarrow> val) \<Rightarrow> val list \<Rightarrow> error + val" where
  "pattern_call mk args =
     (if length args > 1 then Inr (mk (Tuple args))
      else (case py_index 0 (length args) of
              None \<Rightarrow> Inl IndexError
            | Some j \<Rightarrow> Inr (mk (args ! j))))"

text \<open>
  Modelled from the spec: the constructor \<^verbatim>\<open>PGroup(x)\<close> as this call uses it: the spec's
  \<open>group\<close> "returns a Group of kind \<open>plain\<close> containing \<open>values\<close> if more than one
  value given, else returns the single value unwrapped".
\<close>

fun PGroup_of :: "val \<Rightarrow> val" where
  "PGroup_of (Tuple xs) = PGroup xs"
| "PGroup_of v = v"

subsection \<open>The container's contracts\<close>

text \<open>
  Modelled from the spec: \<^verbatim>\<open>modi\<close> (imported, not in this file) is the spec's
  \<open>element_at(seq, i) = seq[i mod len(seq)]\<close>. The spec leaves the empty Sequence
  undefined here (\<open>i mod 0\<close>); the model makes it the error of a zero-length input.
\<close>

definition modi :: "'a list \<Rightarrow> int \<Rightarrow> error + 'a" where
  "modi xs i = (if xs = [] then Inl AlignmentError
                else Inr (xs ! nat (i mod int (length xs))))"

text \<open>
  Modelled from the spec: \<^verbatim>\<open>LCM\<close> (imported, not in this file) is the least common
  multiple of the lengths; of no lengths it is undefined, and "LCM with any zero-length
  input fails with an InvalidArgument error".
\<close>

definition LCM_list :: "nat list \<Rightarrow> error + nat" where
  "LCM_list ls = (if ls = [] then Inl AlignmentError
                  else if 0 \<in> set ls then Inl InvalidArgument
                  else Inr (fold lcm ls 1))"

text \<open>
  Modelled from the spec: \<^verbatim>\<open>asStream\<close> and the constructor \<^verbatim>\<open>Pattern(x)\<close> (imported,
  not in this file) normalise a value to a Sequence as the spec's \<open>build\<close> does: a
  Sequence is returned unchanged, an iterable gives its elements in order, anything else
  is wrapped as a Sequence of length one. The result is the data of the Sequence.
\<close>

fun asStream :: "val \<Rightarrow> val list" where
  "asStream (Pattern xs) = xs"
| "asStream (PyList xs) = xs"
| "asStream (Tuple xs) = xs"
| "asStream v = [v]"

text \<open>The results of a list of calls: the first error, or all the values.\<close>

fun collect :: "('e + 'a) list \<Rightarrow> 'e + 'a list" where
  "collect [] = Inr []"
| "collect (r # rs) =
     (case r of
        Inl e \<Rightarrow> Inl e
      | Inr x \<Rightarrow> (case collect rs of Inl e \<Rightarrow> Inl e | Inr xs \<Rightarrow> Inr (x # xs)))"

text \<open>
  Modelled from the spec: the method \<^verbatim>\<open>Pattern.stretch\<close> (the class is imported, not in
  this file): "cyclically repeats \<open>seq\<close> (\<open>element_at\<close> semantics) until exactly \<open>size\<close>
  elements are produced, truncating the final cycle if needed".
\<close>

definition stretch :: "'a list \<Rightarrow> int \<Rightarrow> error + 'a list" where
  "stretch xs size' = collect (map (\<lambda>n. modi xs (int n)) [0..<nat size'])"

text \<open>
  Modelled from the spec: the method \<^verbatim>\<open>Pattern.rotate\<close>: "cyclic shift left by \<open>n\<close>".
\<close>

definition rotate_pat :: "'a list \<Rightarrow> int \<Rightarrow> 'a list" where
  "rotate_pat xs n = (if xs = [] then [] else rotate (nat (n mod int (length xs))) xs)"

subsection \<open>PAlt\<close>

text \<open>
  \<^verbatim>\<open>
    data = []
    item = [asStream(p) for p in [pat1, pat2] + list(patN)]
    size = LCM(*[len(i) for i in item])
    for n in range(size):
        for i in item:
            data.append(modi(i,n))
    return Pattern(data)
  \<close>
  The inner loop, the outer loop over \<^verbatim>\<open>range(size)\<close>, and the function; the result is
  the data of the returned Pattern.
\<close>

fun PAlt_inner :: "val list list \<Rightarrow> int \<Rightarrow> val list \<Rightarrow> error + val list" where
  "PAlt_inner [] n data = Inr data"
| "PAlt_inner (i # item) n data =
     (case modi i n of Inl e \<Rightarrow> Inl e | Inr v \<Rightarrow> PAlt_inner item n (data @ [v]))"

fun PAlt_outer :: "val list list \<Rightarrow> nat list \<Rightarrow> val list \<Rightarrow> error + val list" where
  "PAlt_outer item [] data = Inr data"
| "PAlt_outer item (n # ns) data =
     (case PAlt_inner item (int n) data of
        Inl e \<Rightarrow> Inl e
      | Inr data' \<Rightarrow> PAlt_outer item ns data')"

definition PAlt :: "val \<Rightarrow> val \<Rightarrow> val list \<Rightarrow> error + val list" where
  "PAlt pat1 pat2 patN =
     (let item = map asStream ([pat1, pat2] @ patN) in
      case LCM_list (map length item) of
        Inl e \<Rightarrow> Inl e
      | Inr size' \<Rightarrow> PAlt_outer item [0..<size'] [])"

text \<open>
  The spec's words for \<open>alternate\<close>, to compare PAlt with: "let \<open>L\<close> = LCM of all input
  lengths; for \<open>i\<close> in \<open>0..L-1\<close>, append \<open>element_at(seqj, i)\<close> for every input \<open>seqj\<close> in
  order".
\<close>

definition alternate :: "'a list list \<Rightarrow> 'a list" where
  "alternate seqs =
     concat (map (\<lambda>i. map (\<lambda>s. s ! (i mod length s)) seqs)
                 [0..<fold lcm (map length seqs) 1])"

subsection \<open>PStretch\<close>

text \<open>
  \<^verbatim>\<open>
    return Pattern(seq).stretch(size)
  \<close>
\<close>

definition PStretch :: "val \<Rightarrow> int \<Rightarrow> error + val list" where
  "PStretch seq size' = stretch (asStream seq) size'"

subsection \<open>PSum\<close>

text \<open>
  \<^verbatim>\<open>
    lim = kwargs.get("lim", 0.125)
    data = [total + 1]
    step = 1
    while sum(data) > total:
        data = [step for x in range(n)]
        step *= 0.5
  \<close>
\<close>

partial_function (option) PSum_fit ::
  "int \<Rightarrow> rat \<Rightarrow> rat list \<Rightarrow> rat \<Rightarrow> (rat list \<times> rat) option" where
  "PSum_fit n total' data step =
     (if sum_list data > total'
      then PSum_fit n total' (replicate (nat n) step) (step * (1 / 2))
      else Some (data, step))"

text \<open>
  \<^verbatim>\<open>
    i = 0
    while sum(data) < total and step >= lim:
        if sum(data) + step > total:
            step *= 0.5
        else:
            data[i % n] += step
            i += 1
  \<close>
  \<^verbatim>\<open>i % n\<close> raises ZeroDivisionError for \<open>n = 0\<close>; the index may be out of range of
  \<open>data\<close> (which is empty for \<open>n < 0\<close>).
\<close>

partial_function (option) PSum_fill ::
  "int \<Rightarrow> rat \<Rightarrow> rat \<Rightarrow> rat list \<Rightarrow> rat \<Rightarrow> int \<Rightarrow> (error + rat list) option" where
  "PSum_fill n total' lim' data step i =
     (if sum_list data < total' \<and> step \<ge> lim'
      then (if sum_list data + step > total'
            then PSum_fill n total' lim' data (step * (1 / 2)) i
            else if n = 0 then Some (Inl ZeroDivisionError)
            else (case py_index (i mod n) (length data) of
                    None \<Rightarrow> Some (Inl IndexError)
                  | Some j \<Rightarrow>
                      PSum_fill n total' lim' (data[j := data ! j + step]) step (i + 1)))
      else Some (Inr data))"

declare PSum_fit.simps [code] PSum_fill.simps [code]

text \<open>
  The function called with scalar arguments; \<open>kwargs\<close> is the optional keyword \<^verbatim>\<open>lim\<close>.
  The result is the data of the returned Pattern.
\<close>

definition PSum :: "int \<Rightarrow> rat \<Rightarrow> rat option \<Rightarrow> (error + rat list) option" where
  "PSum n total' kwargs =
     (let lim' = (case kwargs of None \<Rightarrow> 1 / 8 | Some l \<Rightarrow> l) in
      case PSum_fit n total' [total' + 1] 1 of
        None \<Rightarrow> None
      | Some (data, step) \<Rightarrow> PSum_fill n total' lim' data step 0)"

subsection \<open>PDur: the refinement loop\<close>

text \<open>
  Python's \<^verbatim>\<open>x / 2\<close> on a float. The finite floats are multiples of \<open>denorm_min\<close>, the
  smallest positive one (\<^verbatim>\<open>5e-324\<close>). Halving a float is exact unless the half is not
  such a multiple (underflow): then the result is the nearest multiple, the even one of
  two equally near.
\<close>

definition denorm_min :: rat where
  "denorm_min = 1 / 2 ^ 1074"

definition round_half_even :: "rat \<Rightarrow> int" where
  "round_half_even x =
     (let f = \<lfloor>x\<rfloor>; r = x - of_int f in
      if r < 1 / 2 then f
      else if 1 / 2 < r then f + 1
      else if even f then f else f + 1)"

fun py_half :: "pyfloat \<Rightarrow> pyfloat" where
  "py_half (Finite q) =
     (let m = q / denorm_min in
      if m / 2 = of_int \<lfloor>m / 2\<rfloor> then Finite (q / 2)
      else Finite (of_int (round_half_even (m / 2)) * denorm_min))"
| "py_half PosInf = PosInf"
| "py_half NegInf = NegInf"
| "py_half NaN = NaN"

declare py_half.simps [simp del]

text \<open>
  \<^verbatim>\<open>
    while n > k:
        k   = k * 2
        dur = dur / 2
  \<close>
  The loop may run forever (for instance \<open>n = 1\<close>, \<open>k = 0\<close>).
\<close>

partial_function (option) PDur_loop ::
  "int \<Rightarrow> int \<Rightarrow> pyfloat \<Rightarrow> (int \<times> pyfloat) option" where
  "PDur_loop n k dur = (if n > k then PDur_loop n (k * 2) (py_half dur) else Some (k, dur))"

declare PDur_loop.simps [code]

subsection \<open>PDur\<close>

text \<open>
  Modelled from the spec: \<^verbatim>\<open>EuclidsAlgorithm\<close> (imported, not in this file) is the
  spec's \<open>euclid(n, k)\<close>: "the standard Bjorklund bisection procedure (recursively
  distribute \<open>n\<close> groups of [pulse] among \<open>k-n\<close> groups of [rest], merging remainders)";
  "\<open>n <= 0\<close> or \<open>k <= 0\<close> fails with an InvalidArgument error". In \<open>bjorklund a b\<close>, \<open>a\<close>
  are the groups being built and \<open>b\<close> the remainder groups.
\<close>

function bjorklund :: "'a list list \<Rightarrow> 'a list list \<Rightarrow> 'a list" where
  "bjorklund a b =
     (if length b \<le> 1 \<or> a = [] then concat (a @ b)
      else let m = min (length a) (length b) in
           bjorklund (map2 (@) (take m a) (take m b)) (drop m a @ drop m b))"
  by pat_completeness auto
termination
  by (relation "measure (\<lambda>(a, b). length a + length b)") (auto simp: min_def)

definition EuclidsAlgorithm :: "int \<Rightarrow> int \<Rightarrow> error + int list" where
  "EuclidsAlgorithm n k =
     (if n \<le> 0 \<or> k \<le> 0 then Inl InvalidArgument
      else Inr (bjorklund (replicate (nat n) [1]) (replicate (nat (k - n)) [0])))"

text \<open>
  Modelled from the spec: \<^verbatim>\<open>PulsesToDurations\<close> (imported, not in this file) derives a
  Duration Sequence "by run-length measurement between consecutive pulse-value entries
  (wrapping at the end back to the first entry)": the count starts at the first entry,
  every later pulse closes a run, and the last run closes at the end.
\<close>

fun PulsesToDurations_from :: "int list \<Rightarrow> int \<Rightarrow> int list" where
  "PulsesToDurations_from [] count' = [count']"
| "PulsesToDurations_from (x # xs) count' =
     (if x = 1 then count' # PulsesToDurations_from xs 1
      else PulsesToDurations_from xs (count' + 1))"

definition PulsesToDurations :: "int list \<Rightarrow> error + int list" where
  "PulsesToDurations data = Inr (PulsesToDurations_from (tl data) 1)"

text \<open>
  Python's \<^verbatim>\<open>start != 0\<close> and \<^verbatim>\<open>int(start)\<close> on a number: truncation towards zero,
  OverflowError for an infinity, ValueError for NaN.
\<close>

fun py_ne_zero :: "pyfloat \<Rightarrow> bool" where
  "py_ne_zero (Finite q) = (q \<noteq> 0)"
| "py_ne_zero x = True"

fun py_int :: "pyfloat \<Rightarrow> error + int" where
  "py_int (Finite q) = Inr (if 0 \<le> q then \<lfloor>q\<rfloor> else \<lceil>q\<rceil>)"
| "py_int PosInf = Inl OverflowError"
| "py_int NegInf = Inl OverflowError"
| "py_int NaN = Inl ValueError"

text \<open>
  Modelled from the spec: the operator \<^verbatim>\<open>*\<close> of the Pattern class (imported, not in this
  file) is the "elementwise arithmetic" of the container, "broadcasting
  scalar-to-sequence": each count times \<open>dur\<close>, on finite values the product of the
  numbers.
\<close>

fun py_times :: "int \<Rightarrow> pyfloat \<Rightarrow> pyfloat" where
  "py_times c (Finite q) = Finite (of_int c * q)"
| "py_times c PosInf = (if 0 < c then PosInf else if c < 0 then NegInf else NaN)"
| "py_times c NegInf = (if 0 < c then NegInf else if c < 0 then PosInf else NaN)"
| "py_times c NaN = NaN"

definition Pattern_times :: "int list \<Rightarrow> pyfloat \<Rightarrow> pyfloat list" where
  "Pattern_times pattern dur = map (\<lambda>c. py_times c dur) pattern"

text \<open>
  \<^verbatim>\<open>
    while n > k: ...
    pattern = Pattern(PulsesToDurations( EuclidsAlgorithm(n, k) ))
    if start != 0:
        pattern = pattern.rotate(int(start))
    return pattern * dur
  \<close>
  The function called with scalar arguments. The two imported functions and the
  operator \<^verbatim>\<open>*\<close> of the imported Pattern class are the parameters \<open>euclid\<close>, \<open>durations\<close>
  and \<open>mul\<close> of \<open>PDur_with\<close>; \<open>PDur\<close> is the function with the spec's models of
  them. The result is the data of the returned Pattern.
\<close>

definition PDur_with ::
  "(int \<Rightarrow> int \<Rightarrow> error + int list) \<Rightarrow> (int list \<Rightarrow> error + int list) \<Rightarrow>
   (int list \<Rightarrow> pyfloat \<Rightarrow> 'a) \<Rightarrow>
   int \<Rightarrow> int \<Rightarrow> pyfloat \<Rightarrow> pyfloat \<Rightarrow> (error + 'a) option" where
  "PDur_with euclid durations mul n k start dur =
     (case PDur_loop n k dur of
        None \<Rightarrow> None
      | Some (k', dur') \<Rightarrow>
          (case euclid n k' of
             Inl e \<Rightarrow> Some (Inl e)
           | Inr pulses \<Rightarrow>
               (case durations pulses of
                  Inl e \<Rightarrow> Some (Inl e)
                | Inr pattern \<Rightarrow>
                    if py_ne_zero start then
                      (case py_int start of
                         Inl e \<Rightarrow> Some (Inl e)
                       | Inr s \<Rightarrow> Some (Inr (mul (rotate_pat pattern s) dur')))
                    else Some (Inr (mul pattern dur')))))"

definition PDur ::
  "int \<Rightarrow> int \<Rightarrow> pyfloat \<Rightarrow> pyfloat \<Rightarrow> (error + pyfloat list) option" where
  "PDur = PDur_with EuclidsAlgorithm PulsesToDurations Pattern_times"

subsection \<open>Generators and the broadcast of Sequence-valued arguments\<close>

text \<open>
  A generator decorated with \<^verbatim>\<open>@loop_pattern_func\<close> receives its positional arguments as
  a list of values. Its result is the data of the returned Pattern, an error, or nothing
  when it does not return.
\<close>

type_synonym 'a result = "(error + 'a) option"

text \<open>An argument used as an integer (by \<^verbatim>\<open>range\<close>) or as a number.\<close>

fun as_int :: "val \<Rightarrow> error + int" where
  "as_int (Num q) = (if q = of_int \<lfloor>q\<rfloor> then Inr \<lfloor>q\<rfloor> else Inl TypeError)"
| "as_int v = Inl TypeError"

fun as_num :: "val \<Rightarrow> error + pyfloat" where
  "as_num (Float x) = Inr x"
| "as_num v = Inl TypeError"



text \<open>
  \<^verbatim>\<open>
    @loop_pattern_func
    def PDur(n, k, start=0, dur=0.25):
  \<close>
  with two to four positional arguments; \<open>n\<close> and \<open>k\<close> are counts.
\<close>

fun PDur_args :: "val list \<Rightarrow> val list result" where
  "PDur_args args =
     (if length args < 2 \<or> 4 < length args then Some (Inl TypeError)
      else (case (as_int (args ! 0), as_int (args ! 1),
                  (if 2 < length args then as_num (args ! 2) else Inr (Finite 0)),
                  (if 3 < length args then as_num (args ! 3) else Inr (Finite (1 / 4)))) of
              (Inr n, Inr k, Inr start, Inr dur) \<Rightarrow>
                 map_option (map_sum id (map Float)) (PDur n k start dur)
            | _ \<Rightarrow> Some (Inl TypeError)))"





subsection \<open>PJoin\<close>






subsection \<open>PRhythm\<close>

text \<open>
  What a call returns: the very object it was given as its argument, or a new value.
\<close>

datatype returned = Argument | New val

text \<open>Python's \<^verbatim>\<open>len(x)\<close>, \<^verbatim>\<open>x[0]\<close>, the two \<^verbatim>\<open>isinstance\<close> tests and \<^verbatim>\<open>*item\<close>.\<close>

fun py_len :: "val \<Rightarrow> error + nat" where
  "py_len (Float x) = Inl TypeError"
| "py_len (Str s) = Inr (length s)"
| "py_len (PyList xs) = Inr (length xs)"
| "py_len (Tuple xs) = Inr (length xs)"
| "py_len (Pattern xs) = Inr (length xs)"
| "py_len (PGroup xs) = Inr (length xs)"

fun py_first :: "val \<Rightarrow> error + val" where
  "py_first (Float x) = Inl TypeError"
| "py_first (Str s) = (case s of [] \<Rightarrow> Inl IndexError | c # _ \<Rightarrow> Inr (Str [c]))"
| "py_first (PyList xs) = (case xs of [] \<Rightarrow> Inl IndexError | x # _ \<Rightarrow> Inr x)"
| "py_first (Tuple xs) = (case xs of [] \<Rightarrow> Inl IndexError | x # _ \<Rightarrow> Inr x)"
| "py_first (Pattern xs) = (case xs of [] \<Rightarrow> Inl IndexError | x # _ \<Rightarrow> Inr x)"
| "py_first (PGroup xs) = (case xs of [] \<Rightarrow> Inl IndexError | x # _ \<Rightarrow> Inr x)"

fun is_group :: "val \<Rightarrow> bool" where
  "is_group (Tuple xs) = True"
| "is_group (PGroup xs) = True"
| "is_group v = False"

fun is_list :: "val \<Rightarrow> bool" where
  "is_list (PyList xs) = True"
| "is_list (Pattern xs) = True"
| "is_list v = False"

fun star :: "val \<Rightarrow> val list" where
  "star (Tuple xs) = xs"
| "star (PGroup xs) = xs"
| "star v = [v]"

text \<open>
  Modelled from the spec: the method \<^verbatim>\<open>Pattern.accum\<close> (the class is imported, not in
  this file) is the "running cumulative sum (each element = sum of all prior durations)";
  \<open>py_add\<close> is the sum of two durations, on finite values the sum of the numbers.
\<close>

fun py_add :: "pyfloat \<Rightarrow> pyfloat \<Rightarrow> pyfloat" where
  "py_add (Finite a) (Finite b) = Finite (a + b)"
| "py_add NaN y = NaN"
| "py_add x NaN = NaN"
| "py_add PosInf NegInf = NaN"
| "py_add NegInf PosInf = NaN"
| "py_add PosInf y = PosInf"
| "py_add x PosInf = PosInf"
| "py_add NegInf y = NegInf"
| "py_add x NegInf = NegInf"

fun accum_from :: "pyfloat list \<Rightarrow> pyfloat \<Rightarrow> pyfloat list" where
  "accum_from [] s = []"
| "accum_from (x # xs) s = s # accum_from xs (py_add s x)"

definition accum :: "pyfloat list \<Rightarrow> pyfloat list" where
  "accum xs = accum_from xs (Finite 0)"

text \<open>
  \<^verbatim>\<open>
    value = PGroup(sum(dur)|dur.accum()[1:])
  \<close>
  Modelled from the spec: the operator \<^verbatim>\<open>|\<close> and the constructor \<^verbatim>\<open>PGroup\<close> on a
  Pattern give "a Group built from the total duration and the cumulative-offset Sequence
  (excluding the first)".
\<close>

definition offsets_group :: "val list \<Rightarrow> error + val" where
  "offsets_group dur =
     (case collect (map as_num dur) of
        Inl e \<Rightarrow> Inl e
      | Inr ds \<Rightarrow> Inr (PGroup (map Float (foldl py_add (Finite 0) ds # tl (accum ds)))))"

text \<open>
  \<^verbatim>\<open>
    def PRhythm(durations):
        if len(durations) == 1:
            item = durations[0]
            if isinstance(item, (tuple, PGroup)):
                return PDur(*item)
            else:
                return durations
        else:
            durations = asStream(durations).data
            output = Pattern()
            for i in range(len( asStream(durations).data ) ):
                item = durations[i]
                if isinstance(item, (list, Pattern)):
                    value = PRhythm(item)
                elif isinstance(item, (tuple, PGroup)):
                    dur   = PDur(*item)
                    value = PGroup(sum(dur)|dur.accum()[1:])
                else:
                    value = item
                output.append(value)
            return output
  \<close>
  The decorated \<^verbatim>\<open>PDur\<close>, as it is called with the unpacked item, is the parameter
  \<open>pdur\<close>. \<open>PRhythm_items\<close> is the loop over the data.
\<close>

function PRhythm :: "(val list \<Rightarrow> val list result) \<Rightarrow> val \<Rightarrow> returned result"
  and PRhythm_items ::
    "(val list \<Rightarrow> val list result) \<Rightarrow> val list \<Rightarrow> val list \<Rightarrow> val list result"
where
  "PRhythm pdur durations =
     (case py_len durations of
        Inl e \<Rightarrow> Some (Inl e)
      | Inr l \<Rightarrow>
          if l = 1 then
            (case py_first durations of
               Inl e \<Rightarrow> Some (Inl e)
             | Inr item \<Rightarrow>
                 if is_group item then
                   (case pdur (star item) of
                      None \<Rightarrow> None
                    | Some (Inl e) \<Rightarrow> Some (Inl e)
                    | Some (Inr d) \<Rightarrow> Some (Inr (New (Pattern d))))
                 else Some (Inr Argument))
          else
            (case PRhythm_items pdur (asStream durations) [] of
               None \<Rightarrow> None
             | Some (Inl e) \<Rightarrow> Some (Inl e)
             | Some (Inr output) \<Rightarrow> Some (Inr (New (Pattern output)))))"
| "PRhythm_items pdur [] output = Some (Inr output)"
| "PRhythm_items pdur (item # rest) output =
     (if is_list item then
        (case PRhythm pdur item of
           None \<Rightarrow> None
         | Some (Inl e) \<Rightarrow> Some (Inl e)
         | Some (Inr r) \<Rightarrow>
             PRhythm_items pdur rest
               (output @ [case r of Argument \<Rightarrow> item | New v \<Rightarrow> v]))
      else if is_group item then
        (case pdur (star item) of
           None \<Rightarrow> None
         | Some (Inl e) \<Rightarrow> Some (Inl e)
         | Some (Inr dur) \<Rightarrow>
             (case offsets_group dur of
                Inl e \<Rightarrow> Some (Inl e)
              | Inr v \<Rightarrow> PRhythm_items pdur rest (output @ [v])))
      else PRhythm_items pdur rest (output @ [item]))"
  by pat_completeness auto

text \<open>
  The recursion descends into the elements of lists and Patterns only; \<open>weight\<close> bounds
  what a call on an element can cost.
\<close>

fun weight :: "val \<Rightarrow> nat" where
  "weight v = (if is_list v then 4 * size v + 3 else 1)"

lemma weight_items_le: "sum_list (map weight xs) \<le> 4 * size_list size xs"
  by (induction xs) auto

lemma weight_asStream: "sum_list (map weight (asStream d)) < 4 * size d + 2"
proof (cases d)
  case (PyList xs)
  then show ?thesis using weight_items_le [of xs] by simp
next
  case (Tuple xs)
  then show ?thesis using weight_items_le [of xs] by simp
next
  case (Pattern xs)
  then show ?thesis using weight_items_le [of xs] by simp
qed simp_all

termination PRhythm
proof (relation "measure (\<lambda>x. case x of
            Inl (pdur, d) \<Rightarrow> 4 * size d + 2
          | Inr (pdur, xs, out) \<Rightarrow> sum_list (map weight xs))", goal_cases)
  case 1
  then show ?case by simp
next
  case (2 pdur durations l)
  then show ?case using weight_asStream [of durations] by simp
qed simp_all

section \<open>Properties\<close>

subsection \<open>P(...)\<close>

text \<open>
  C4, as stated, fails: the call with zero values does not return an empty Sequence.
\<close>

theorem pattern_call_no_values_not_empty: "pattern_call PGroup_of [] \<noteq> Inr (Pattern [])"
  by (simp add: pattern_call_def py_index_def)

text \<open>
  C4, amended. Calling the plain Group constructor with zero values fails with
  IndexError, whatever the PGroup constructor does: \<^verbatim>\<open>args[0]\<close> is evaluated on the empty
  tuple before the constructor is called.
\<close>

theorem pattern_call_no_values: "pattern_call mk [] = Inl IndexError"
  by (simp add: pattern_call_def py_index_def)

subsection \<open>PAlt\<close>

lemma PAlt_inner_nonempty:
  "\<forall>s \<in> set item. s \<noteq> [] \<Longrightarrow>
   PAlt_inner item (int n) data = Inr (data @ map (\<lambda>s. s ! (n mod length s)) item)"
proof (induction item arbitrary: data)
  case Nil
  then show ?case by simp
next
  case (Cons s item)
  then have "modi s (int n) = Inr (s ! (n mod length s))"
    by (simp add: modi_def nat_mod_distrib flip: zmod_int)
  with Cons show ?case by simp
qed

lemma PAlt_outer_nonempty:
  "\<forall>s \<in> set item. s \<noteq> [] \<Longrightarrow>
   PAlt_outer item ns data =
     Inr (data @ concat (map (\<lambda>n. map (\<lambda>s. s ! (n mod length s)) item) ns))"
  by (induction ns arbitrary: data) (simp_all add: PAlt_inner_nonempty)

text \<open>
  On non-empty inputs PAlt is the spec's \<open>alternate\<close>, and its length is the number of
  inputs times the least common multiple of their lengths.
\<close>

lemma PAlt_round_robin:
  assumes "\<forall>p \<in> set (pat1 # pat2 # patN). asStream p \<noteq> []"
  shows "PAlt pat1 pat2 patN = Inr (alternate (map asStream (pat1 # pat2 # patN)))"
proof -
  let ?item = "map asStream (pat1 # pat2 # patN)"
  from assms have ne: "\<forall>s \<in> set ?item. s \<noteq> []" by auto
  then have "0 \<notin> set (map length ?item)" by auto
  then have "LCM_list (map length ?item) = Inr (fold lcm (map length ?item) 1)"
    by (simp add: LCM_list_def)
  then show ?thesis
    using PAlt_outer_nonempty [OF ne, of "[0..<fold lcm (map length ?item) 1]" "[]"]
    by (simp add: PAlt_def alternate_def)
qed

lemma length_alternate:
  "length (alternate seqs) = length seqs * fold lcm (map length seqs) 1"
  by (simp add: alternate_def length_concat comp_def sum_list_triv)

text \<open>
  C1, as stated, fails: the length of \<^verbatim>\<open>PAlt([0,1,2], [3,4])\<close> is not \<open>LCM(3,2) = 6\<close>.
\<close>

theorem PAlt_length_is_not_lcm:
  "map_sum id length (PAlt (Pattern [Num 0, Num 1, Num 2]) (Pattern [Num 3, Num 4]) [])
     \<noteq> Inr (lcm 3 2)"
  by code_simp

text \<open>
  C1, amended. \<^verbatim>\<open>PAlt([0,1,2], [3,4])\<close> is the round-robin by modular index of both
  inputs, one element of each input in each of the \<open>LCM(3,2) = 6\<close> rounds: a Sequence of
  length \<open>2 * 6 = 12\<close>.
\<close>

theorem PAlt_example:
  "PAlt (Pattern [Num 0, Num 1, Num 2]) (Pattern [Num 3, Num 4]) []
     = Inr (alternate [[Num 0, Num 1, Num 2], [Num 3, Num 4]]) \<and>
   alternate [[Num 0, Num 1, Num 2], [Num 3, Num 4]]
     = map Num [0, 3, 1, 4, 2, 3, 0, 4, 1, 3, 2, 4] \<and>
   length (alternate [[Num 0, Num 1, Num 2], [Num 3, Num 4]]) = 2 * lcm 3 2"
  by code_simp

subsection \<open>PStretch\<close>

lemma collect_Inr: "collect (map (\<lambda>n. Inr (f n)) ns) = Inr (map f ns)"
  by (induction ns) simp_all

lemma stretch_nonempty:
  assumes "xs \<noteq> []"
  shows "stretch xs size' = Inr (map (\<lambda>n. xs ! (n mod length xs)) [0..<nat size'])"
proof -
  have "(\<lambda>n. modi xs (int n)) = (\<lambda>n. Inr (xs ! (n mod length xs)))"
    using assms by (auto simp: modi_def fun_eq_iff nat_mod_distrib simp flip: zmod_int)
  then show ?thesis
    by (simp add: stretch_def collect_Inr)
qed

lemma stretch_idem:
  assumes "xs \<noteq> []" "1 \<le> size'" "stretch xs size' = Inr ys"
  shows "stretch ys size' = Inr ys"
proof -
  from assms have ys: "ys = map (\<lambda>n. xs ! (n mod length xs)) [0..<nat size']"
    by (simp add: stretch_nonempty)
  then have len: "length ys = nat size'" by simp
  with assms(2) have ne: "ys \<noteq> []" by auto
  have "map (\<lambda>n. ys ! (n mod length ys)) [0..<nat size'] = map (\<lambda>n. ys ! n) [0..<length ys]"
    using len by simp
  also have "\<dots> = ys" by (rule map_nth)
  finally show ?thesis using ne by (simp add: stretch_nonempty)
qed

text \<open>
  C8, as stated, fails on the empty Sequence: no element can be taken from it, so for
  \<open>size = 1\<close> the call fails instead of returning one element.
\<close>

theorem PStretch_empty: "PStretch (Pattern []) 1 = Inl AlignmentError"
  by (simp add: PStretch_def stretch_def modi_def)

text \<open>
  C8, amended. For every non-empty sequence \<open>seq\<close> and every \<open>size \<ge> 1\<close>,
  \<^verbatim>\<open>PStretch(seq, size)\<close> returns exactly \<open>size\<close> elements, the cyclic repetition of \<open>seq\<close>
  truncated to \<open>size\<close>, and stretching the result to \<open>size\<close> again returns it unchanged.
\<close>

theorem PStretch_size_idempotent:
  assumes "asStream seq \<noteq> []" and "1 \<le> size'"
  shows "\<exists>ys. PStretch seq size' = Inr ys \<and> length ys = nat size' \<and>
           ys = map (\<lambda>n. asStream seq ! (n mod length (asStream seq))) [0..<nat size'] \<and>
           PStretch (Pattern ys) size' = Inr ys"
proof -
  let ?ys = "map (\<lambda>n. asStream seq ! (n mod length (asStream seq))) [0..<nat size']"
  have 1: "PStretch seq size' = Inr ?ys"
    using assms(1) by (simp add: PStretch_def stretch_nonempty)
  then have "stretch (asStream seq) size' = Inr ?ys"
    by (simp add: PStretch_def)
  with assms have "stretch ?ys size' = Inr ?ys"
    by (rule stretch_idem)
  then have "PStretch (Pattern ?ys) size' = Inr ?ys"
    by (simp add: PStretch_def)
  with 1 show ?thesis by simp
qed

theorem PStretch_size_idempotent_witness:
  "\<exists>ys. PStretch (PyList [Num 0, Num 1, Num 2]) 5 = Inr ys \<and> length ys = 5 \<and>
        ys = [Num 0, Num 1, Num 2, Num 0, Num 1] \<and> PStretch (Pattern ys) 5 = Inr ys"
proof -
  have "[0..<5] = [0, 1, 2, 3, 4]" by code_simp
  then show ?thesis
    using PStretch_size_idempotent [of "PyList [Num 0, Num 1, Num 2]" 5] by simp
qed

subsection \<open>PSum\<close>

text \<open>
  C2. \<^verbatim>\<open>PSum(5, 4)\<close> is \<open>[1, 0.75, 0.75, 0.75, 0.75]\<close> as the docstring says, but
  \<^verbatim>\<open>PSum(3, 8)\<close> is \<open>[3, 2.5, 2.5]\<close>, not the \<open>[3, 3, 2]\<close> of the docstring.
\<close>

theorem PSum_docstring_examples:
  "PSum 3 8 None = Some (Inr [3, 5 / 2, 5 / 2]) \<and>
   PSum 5 4 None = Some (Inr [1, 3 / 4, 3 / 4, 3 / 4, 3 / 4])"
  by code_simp

text \<open>
  C6. \<^verbatim>\<open>PSum(10, 2)\<close> returns ten elements \<open>0.125\<close>: their sum \<open>1.25\<close> is further than the
  tolerance \<open>0.125\<close> from \<open>2\<close>.
\<close>

theorem PSum_10_2_falls_short:
  "PSum 10 2 None = Some (Inr (replicate 10 (1 / 8))) \<and>
   sum_list (replicate 10 (1 / 8 :: rat)) = 5 / 4 \<and>
   \<bar>2 - 5 / 4 :: rat\<bar> > 1 / 8"
  by code_simp

subsection \<open>PDur\<close>

lemma PDur_loop_exit: "n \<le> k \<Longrightarrow> PDur_loop n k dur = Some (k, dur)"
  by (subst PDur_loop.simps) simp

lemma PDur_loop_iter: "k < n \<Longrightarrow> PDur_loop n k dur = PDur_loop n (k * 2) (py_half dur)"
  by (subst PDur_loop.simps) simp

text \<open>
  From \<open>k \<ge> 1\<close> the loop returns after some number \<open>j\<close> of iterations, the first at
  which \<open>n \<le> k * 2 ^ j\<close>, with \<open>dur\<close> halved \<open>j\<close> times.
\<close>

lemma PDur_loop_iterations:
  "1 \<le> k \<Longrightarrow>
     \<exists>j. PDur_loop n k dur = Some (k * 2 ^ j, (py_half ^^ j) dur) \<and> n \<le> k * 2 ^ j
       \<and> (\<forall>i<j. k * 2 ^ i < n)"
proof (induction "nat (n - k)" arbitrary: k dur rule: less_induct)
  case less
  show ?case
  proof (cases "n \<le> k")
    case True
    then have "PDur_loop n k dur = Some (k * 2 ^ 0, (py_half ^^ 0) dur) \<and> n \<le> k * 2 ^ 0
       \<and> (\<forall>i<0. k * 2 ^ i < n)"
      by (simp add: PDur_loop_exit)
    then show ?thesis by blast
  next
    case False
    with less.prems have "nat (n - k * 2) < nat (n - k)" by simp
    moreover from less.prems have "1 \<le> k * 2" by simp
    ultimately obtain j where j:
      "PDur_loop n (k * 2) (py_half dur) = Some (k * 2 * 2 ^ j, (py_half ^^ j) (py_half dur))"
      "n \<le> k * 2 * 2 ^ j" "\<forall>i<j. k * 2 * 2 ^ i < n"
      using less.hyps by blast
    have "\<forall>i<Suc j. k * 2 ^ i < n"
    proof (intro allI impI)
      fix i
      assume "i < Suc j"
      show "k * 2 ^ i < n"
      proof (cases i)
        case 0
        with False show ?thesis by simp
      next
        case (Suc i')
        with \<open>i < Suc j\<close> j(3) show ?thesis by (simp add: mult.assoc)
      qed
    qed
    with False j(1,2)
    have "PDur_loop n k dur = Some (k * 2 ^ Suc j, (py_half ^^ Suc j) dur) \<and> n \<le> k * 2 ^ Suc j
       \<and> (\<forall>i<Suc j. k * 2 ^ i < n)"
      by (simp add: PDur_loop_iter mult.assoc funpow_swap1)
    then show ?thesis by blast
  qed
qed

text \<open>Halving is exact where the half is still a multiple of \<open>denorm_min\<close>.\<close>

lemma denorm_min_pos: "0 < denorm_min"
  unfolding denorm_min_def by (rule divide_pos_pos) simp_all

lemma py_half_exact:
  assumes "q / denorm_min / 2 \<in> \<int>"
  shows "py_half (Finite q) = Finite (q / 2)"
proof -
  from assms have "q / denorm_min / 2 = of_int \<lfloor>q / denorm_min / 2\<rfloor>"
    by (auto elim!: Ints_cases)
  then show ?thesis by (simp add: py_half.simps Let_def)
qed

lemma py_half_funpow:
  "q / denorm_min / 2 ^ j \<in> \<int> \<Longrightarrow> (py_half ^^ j) (Finite q) = Finite (q / 2 ^ j)"
proof (induction j arbitrary: q)
  case 0
  then show ?case by simp
next
  case (Suc j)
  have "q / denorm_min / 2 = (q / denorm_min / 2 ^ Suc j) * 2 ^ j"
    by simp
  also have "\<dots> \<in> \<int>"
    using Suc.prems by (intro Ints_mult Ints_power) simp_all
  finally have 1: "py_half (Finite q) = Finite (q / 2)"
    by (rule py_half_exact)
  have "q / 2 / denorm_min / 2 ^ j = q / denorm_min / 2 ^ Suc j"
    by simp
  with Suc.prems have "q / 2 / denorm_min / 2 ^ j \<in> \<int>"
    by (simp only:)
  then have "(py_half ^^ j) (Finite (q / 2)) = Finite (q / 2 / 2 ^ j)"
    by (rule Suc.IH)
  then show ?case
    by (simp add: funpow_swap1 1)
qed

lemma py_half_zero: "py_half (Finite 0) = Finite 0"
  using py_half_exact [of 0] by simp

lemma py_half_denorm_min: "py_half (Finite denorm_min) = Finite 0"
proof -
  have ne: "denorm_min \<noteq> 0"
    using denorm_min_pos by simp
  have f: "\<lfloor>1 / 2 :: rat\<rfloor> = 0"
    by code_simp
  have r: "round_half_even (1 / 2) = 0"
    by code_simp
  show ?thesis
    by (simp add: py_half.simps ne f r)
qed

lemma quarter_exact: "j \<le> 2 \<Longrightarrow> (1 / 4) / denorm_min / 2 ^ j \<in> \<int>"
proof -
  assume "j \<le> 2"
  then have "(1 / 4 :: rat) / denorm_min / 2 ^ j = 2 ^ (1072 - j)"
    by (simp add: denorm_min_def power_diff)
  then show ?thesis by simp
qed

lemma PDur_loop_5_2: "PDur_loop 5 2 (Finite (1 / 4)) = Some (8, Finite (1 / 16))"
proof -
  have "py_half (Finite (1 / 4)) = Finite (1 / 8)"
    using py_half_exact [of "1 / 4"] quarter_exact [of 1] by simp
  moreover have "py_half (Finite (1 / 8)) = Finite (1 / 16)"
    using py_half_funpow [of "1 / 4" 2] quarter_exact [of 2] calculation
    by (simp add: numeral_2_eq_2)
  ultimately show ?thesis
    by (simp add: PDur_loop_iter PDur_loop_exit)
qed

text \<open>
  C5, as stated, fails: for \<open>n = 2\<close>, \<open>k = 1\<close> and \<open>dur\<close> the smallest positive float
  (\<^verbatim>\<open>5e-324\<close>) the one halving underflows to \<open>0.0\<close>, and the product \<open>k * dur\<close> goes from
  \<open>dur\<close> to \<open>0\<close>.
\<close>

theorem PDur_loop_underflow:
  "PDur_loop 2 1 (Finite denorm_min) = Some (2, Finite 0) \<and>
   (of_int 2 * 0 :: rat) \<noteq> of_int 1 * denorm_min"
  using denorm_min_pos by (simp add: PDur_loop_iter PDur_loop_exit py_half_denorm_min)

text \<open>
  C5, amended. For every \<open>n \<ge> 1\<close>, \<open>k \<ge> 1\<close> and float \<open>dur\<close> the refinement loop at the
  start of PDur returns, after some number \<open>j\<close> of iterations (each doubles \<open>k\<close> and halves
  \<open>dur\<close>, and runs only while \<open>n > k\<close>), in a state with \<open>n \<le> k\<close>. If \<open>dur\<close> is finite and
  its \<open>j\<close> halvings do not underflow (\<open>dur\<close> is a multiple of \<open>2 ^ j\<close> times the smallest
  positive float), the final \<open>dur\<close> is \<open>dur / 2 ^ j\<close> and the product \<open>k * dur\<close> after
  every iteration, the last included, is the product before the loop.
\<close>

theorem PDur_loop_refines:
  assumes "1 \<le> n" and "1 \<le> k"
  shows "\<exists>j dur'. PDur_loop n k dur = Some (k * 2 ^ j, dur') \<and> n \<le> k * 2 ^ j
           \<and> (\<forall>i<j. k * 2 ^ i < n)
           \<and> (\<forall>q. dur = Finite q \<and> q / denorm_min / 2 ^ j \<in> \<int> \<longrightarrow>
                  dur' = Finite (q / 2 ^ j)
                  \<and> (\<forall>i\<le>j. of_int (k * 2 ^ i) * (q / 2 ^ i) = of_int k * q))"
proof -
  from assms(2) obtain j where j:
    "PDur_loop n k dur = Some (k * 2 ^ j, (py_half ^^ j) dur)" "n \<le> k * 2 ^ j"
    "\<forall>i<j. k * 2 ^ i < n"
    using PDur_loop_iterations [of k n dur] by blast
  have "\<forall>q. dur = Finite q \<and> q / denorm_min / 2 ^ j \<in> \<int> \<longrightarrow>
          (py_half ^^ j) dur = Finite (q / 2 ^ j)
          \<and> (\<forall>i\<le>j. of_int (k * 2 ^ i) * (q / 2 ^ i) = of_int k * q)"
    by (simp add: py_half_funpow)
  with j show ?thesis by blast
qed

theorem PDur_loop_refines_witness:
  "PDur_loop 5 2 (Finite (1 / 4)) = Some (8, Finite (1 / 16)) \<and>
   (of_int 8 :: rat) * (1 / 16) = of_int 2 * (1 / 4)"
proof -
  obtain j dur' where j:
    "PDur_loop 5 2 (Finite (1 / 4)) = Some (2 * 2 ^ j, dur')" "(5::int) \<le> 2 * 2 ^ j"
    "\<forall>i<j. (2::int) * 2 ^ i < 5"
    "\<forall>q. Finite (1 / 4) = Finite q \<and> q / denorm_min / 2 ^ j \<in> \<int> \<longrightarrow>
          dur' = Finite (q / 2 ^ j)
          \<and> (\<forall>i\<le>j. of_int (2 * 2 ^ i) * (q / 2 ^ i) = of_int 2 * q)"
    using PDur_loop_refines [of 5 2 "Finite (1 / 4)"] by auto
  have "j \<le> 2"
  proof (rule ccontr)
    assume "\<not> j \<le> 2"
    then have "2 < j" by simp
    with j(3) have "(2::int) * 2 ^ 2 < 5" by blast
    then show False by simp
  qed
  moreover have "j \<noteq> 0"
  proof
    assume "j = 0"
    with j(2) show False by simp
  qed
  moreover have "j \<noteq> 1"
  proof
    assume "j = 1"
    with j(2) show False by simp
  qed
  ultimately have "j = 2" by simp
  have "(1 / 4) / denorm_min / 2 ^ j \<in> \<int>"
    using \<open>j \<le> 2\<close> by (rule quarter_exact)
  with j(4) [rule_format, of "1 / 4"] have "dur' = Finite ((1 / 4) / 2 ^ j)"
    "of_int (2 * 2 ^ j) * ((1 / 4) / 2 ^ j) = (of_int 2 * (1 / 4) :: rat)"
    by blast+
  with j(1) \<open>j = 2\<close> show ?thesis by simp
qed

text \<open>
  The loop never returns when \<open>k \<le> 0\<close> and \<open>n > k\<close>: doubling keeps \<open>k\<close> below \<open>n\<close>.
\<close>

lemma PDur_loop_stays:
  assumes "PDur_loop n k dur = Some y"
  shows "\<not> (k \<le> 0 \<and> k < n)"
proof (rule PDur_loop.raw_induct [where P = "\<lambda>n k dur y. \<not> (k \<le> 0 \<and> k < n)", OF _ assms])
  fix loop :: "int \<Rightarrow> int \<Rightarrow> pyfloat \<Rightarrow> (int \<times> pyfloat) option"
    and n k :: int and dur :: pyfloat and y
  assume IH: "\<And>n k dur y. loop n k dur = Some y \<Longrightarrow> \<not> (k \<le> 0 \<and> k < n)"
    and step: "(if k < n then loop n (k * 2) (py_half dur) else Some (k, dur)) = Some y"
  show "\<not> (k \<le> 0 \<and> k < n)"
  proof
    assume a: "k \<le> 0 \<and> k < n"
    with step have "loop n (k * 2) (py_half dur) = Some y" by simp
    then have "\<not> (k * 2 \<le> 0 \<and> k * 2 < n)" by (rule IH)
    with a show False by simp
  qed
qed

lemma PDur_loop_diverges:
  assumes "k \<le> 0" "k < n"
  shows "PDur_loop n k dur = None"
  using assms PDur_loop_stays [of n k dur] by (cases "PDur_loop n k dur") auto

text \<open>So a call with \<open>k \<le> 0\<close> and \<open>n > k\<close> never returns, whatever the other arguments.\<close>

lemma PDur_never_returns:
  assumes "k \<le> 0" "k < n"
  shows "PDur_with euclid durations mul n k start dur = None"
  using assms by (simp add: PDur_with_def PDur_loop_diverges)


text \<open>
  C7. With \<open>start = 0\<close> and \<open>dur = 0.25\<close>, \<^verbatim>\<open>PDur(3, 8)\<close> is \<open>[0.75, 0.75, 0.5]\<close> and
  \<^verbatim>\<open>PDur(5, 16)\<close> is \<open>[0.75, 0.75, 0.75, 0.75, 1]\<close>.
\<close>

theorem PDur_docstring_examples:
  "PDur 3 8 (Finite 0) (Finite (1 / 4))
     = Some (Inr [Finite (3 / 4), Finite (3 / 4), Finite (1 / 2)]) \<and>
   PDur 5 16 (Finite 0) (Finite (1 / 4))
     = Some (Inr [Finite (3 / 4), Finite (3 / 4), Finite (3 / 4), Finite (3 / 4), Finite 1])"
  by code_simp




lemma PDur_loop_5_2_zero: "PDur_loop 5 2 (Finite 0) = Some (8, Finite 0)"
  by (simp add: PDur_loop_iter PDur_loop_exit py_half_zero)


text \<open>\<^verbatim>\<open>PDur(5, 2, 0, 0)\<close>: the loop runs twice, and the zero \<open>dur\<close> gives five zeros.\<close>

lemma PDur_5_2_zero:
  "PDur 5 2 (Finite 0) (Finite 0) = Some (Inr (replicate 5 (Finite 0)))"
proof -
  have "EuclidsAlgorithm 5 8 = Inr [1, 0, 1, 1, 0, 1, 1, 0]"
    by code_simp
  moreover have "PulsesToDurations [1, 0, 1, 1, 0, 1, 1, 0] = Inr [2, 1, 2, 1, 2]"
    by code_simp
  moreover have "replicate 5 (Finite 0) = [Finite 0, Finite 0, Finite 0, Finite 0, Finite 0]"
    by code_simp
  ultimately show ?thesis
    by (simp add: PDur_def PDur_with_def PDur_loop_5_2_zero Pattern_times_def)
qed

subsection \<open>The broadcast law\<close>













subsection \<open>PRhythm\<close>

text \<open>The example of the docstring, with PDur called on scalars.\<close>

lemma PRhythm_docstring_example:
  "PRhythm PDur_args (PyList [Num 1, Tuple [Num 3, Num 8]])
     = Some (Inr (New (Pattern [Num 1, PGroup [Num 2, Num (3 / 4), Num (3 / 2)]])))"
  by code_simp

text \<open>
  C10. For every input of length exactly 1 whose sole element is neither a tuple nor a
  Group, PRhythm returns its argument itself: nothing is expanded, recursed into or built.
\<close>

theorem PRhythm_single:
  assumes "py_len durations = Inr 1" and "py_first durations = Inr item"
    and "\<not> is_group item"
  shows "PRhythm pdur durations = Some (Inr Argument)"
  using assms by (subst PRhythm.simps) simp

theorem PRhythm_single_witness:
  "PRhythm PDur_args (PyList [Num 1]) = Some (Inr Argument) \<and>
   PRhythm PDur_args (Pattern [PyList [Num 1, Num 2]]) = Some (Inr Argument)"
  using PRhythm_single [of "PyList [Num 1]" "Num 1" PDur_args]
        PRhythm_single [of "Pattern [PyList [Num 1, Num 2]]" "PyList [Num 1, Num 2]" PDur_args]
  by simp


end
